theory Spec2Isabelle
  imports Main
begin

section \<open>Python values used by the views and models\<close>

text \<open>
  A Python \<open>str\<close> is modelled as a \<open>string\<close>: a list of code points below 256
  (Latin-1), one \<open>char\<close> per code point.  The exceptions that the modelled code can raise
  are the constructors of \<open>error\<close>; a function that can raise returns
  \<open>error + 'a\<close> with \<open>Inl\<close> for the exception.
\<close>

datatype error =
    AuthenticationFailed
  | ValidationError string
  | ValueError
  | TypeError
  | Http404

text \<open>Truthiness of an optional string (\<open>if category:\<close>): \<open>None\<close> and \<open>""\<close> are false.\<close>

fun truthy :: "string option \<Rightarrow> bool" where
  "truthy None = False"
| "truthy (Some s) = (s \<noteq> [])"

text \<open>
  \<open>int(s)\<close> for a string: white space is stripped on both sides, one sign is allowed,
  and the digits may be grouped by single underscores.  Anything else raises
  \<open>ValueError\<close>, here \<open>None\<close>.
\<close>

definition is_space :: "char \<Rightarrow> bool" where
  "is_space c = ((of_char c :: nat) \<in> set [9, 10, 11, 12, 13, 28, 29, 30, 31, 32, 133, 160])"

definition is_digit :: "char \<Rightarrow> bool" where
  "is_digit c = (48 \<le> (of_char c :: nat) \<and> (of_char c :: nat) \<le> 57)"

definition digit_val :: "char \<Rightarrow> nat" where
  "digit_val c = (of_char c :: nat) - 48"

definition strip :: "string \<Rightarrow> string" where
  "strip s = rev (dropWhile is_space (rev (dropWhile is_space s)))"

fun int_digits :: "string \<Rightarrow> nat \<Rightarrow> nat option" where
  "int_digits [] acc = Some acc"
| "int_digits [c] acc = (if is_digit c then Some (10 * acc + digit_val c) else None)"
| "int_digits (c # d # cs) acc =
     (if is_digit c then int_digits (d # cs) (10 * acc + digit_val c)
      else if c = CHR ''_'' \<and> is_digit d then int_digits cs (10 * acc + digit_val d)
      else None)"

definition unsigned_int :: "string \<Rightarrow> nat option" where
  "unsigned_int s =
     (case s of
        [] \<Rightarrow> None
      | c # cs \<Rightarrow> if is_digit c then int_digits cs (digit_val c) else None)"

definition py_int :: "string \<Rightarrow> int option" where
  "py_int s =
     (case strip s of
        [] \<Rightarrow> None
      | c # cs \<Rightarrow>
          if c = CHR ''-'' then map_option (\<lambda>n. - int n) (unsigned_int cs)
          else if c = CHR ''+'' then map_option int (unsigned_int cs)
          else map_option int (unsigned_int (c # cs)))"




section \<open>The data model (server/models.py)\<close>

text \<open>
  One record per model class.  The fields keep the names of the model's fields, prefixed
  by the class because HOL records share one name space.  A primary key is \<open>None\<close>
  on an instance that was never saved.  A file field holds the name of the stored file
  (\<open>None\<close> or the empty name: no file).  Users are referenced by their integer key.
\<close>

record category =
  category_id :: "int option"
  category_name :: string
  category_description :: "string option"
  category_icon :: "string option"

record server =
  server_id :: "int option"
  server_name :: string
  server_owner :: int
  server_category :: int
  server_description :: "string option"
  server_banner :: "string option"
  server_icon :: "string option"

record channel =
  channel_id :: "int option"
  channel_name :: string
  channel_owner :: int
  channel_topic :: string
  channel_server :: int

text \<open>
  The database: the three tables in the order the database returns their rows, and the
  join table of \<open>Server.member\<close>, one pair (server key, user key) per membership.
\<close>

record database =
  categories :: "category list"
  servers :: "server list"
  channels :: "channel list"
  server_member :: "(int \<times> int) list"

text \<open>The media storage: the names of the files it holds.\<close>

record world =
  db :: database
  media :: "string list"

section \<open>The query sets the view builds\<close>

text \<open>
  A row of a query set over \<open>Server\<close>: the server, the rows of the join table that the
  query's join on \<open>member\<close> selects for it, and the annotation \<open>num_members\<close> once
  \<open>annotate\<close> has added it.  The query set also records whether a slice was taken.
\<close>

record row =
  row_obj :: server
  row_joined :: "int list"
  row_num_members :: "int option"

record queryset =
  qs_rows :: "row list"
  qs_sliced :: bool

definition members_of :: "database \<Rightarrow> server \<Rightarrow> int list" where
  "members_of d s = map snd (filter (\<lambda>(sid, uid). server_id s = Some sid) (server_member d))"

text \<open>\<open>Server.objects.all()\<close>\<close>

definition objects_all :: "database \<Rightarrow> queryset" where
  "objects_all d =
     \<lparr>qs_rows = map (\<lambda>s. \<lparr>row_obj = s, row_joined = members_of d s, row_num_members = None\<rparr>)
                   (servers d),
      qs_sliced = False\<rparr>"

text \<open>The name of the category a server refers to (the join of \<open>category__name\<close>).\<close>

definition category_name_of :: "database \<Rightarrow> server \<Rightarrow> string option" where
  "category_name_of d s =
     map_option category_name
       (find (\<lambda>c. category_id c = Some (server_category s)) (categories d))"

text \<open>
  \<open>QuerySet.filter\<close> refuses a query set of which a slice was taken (\<open>TypeError\<close>:
  "Cannot filter a query once a slice has been taken."; an assertion failure in old
  releases of the ORM), before it looks at its arguments.  The exception is not a
  \<open>ValueError\<close> in any release.
\<close>

definition filter_category_name :: "database \<Rightarrow> string \<Rightarrow> queryset \<Rightarrow> error + queryset" where
  "filter_category_name d c qs =
     (if qs_sliced qs then Inl TypeError
      else Inr (qs\<lparr>qs_rows := filter (\<lambda>r. category_name_of d (row_obj r) = Some c) (qs_rows qs)\<rparr>))"

text \<open>
  \<open>filter(member=user_id)\<close> joins the membership table and keeps the join rows of that
  user; a later aggregate over \<open>member\<close> uses the same join, so it sees the kept rows
  only.  The join table holds a pair (server, user) at most once (it is declared unique),
  so a server has at most one join row per user and is listed once.
\<close>

definition filter_member :: "int \<Rightarrow> queryset \<Rightarrow> error + queryset" where
  "filter_member u qs =
     (if qs_sliced qs then Inl TypeError
      else Inr (qs\<lparr>qs_rows :=
                  map (\<lambda>r. r\<lparr>row_joined := filter (\<lambda>m. m = u) (row_joined r)\<rparr>)
                    (filter (\<lambda>r. u \<in> set (row_joined r)) (qs_rows qs))\<rparr>))"

text \<open>
  \<open>filter(id=v)\<close> with a string: the key field converts it with \<open>int\<close>, whose
  \<open>ValueError\<close> it passes on.
\<close>

definition filter_id :: "string \<Rightarrow> queryset \<Rightarrow> error + queryset" where
  "filter_id v qs =
     (if qs_sliced qs then Inl TypeError
      else case py_int v of
             None \<Rightarrow> Inl ValueError
           | Some k \<Rightarrow>
               Inr (qs\<lparr>qs_rows := filter (\<lambda>r. server_id (row_obj r) = Some k) (qs_rows qs)\<rparr>))"

text \<open>\<open>annotate(num_members=Count("member"))\<close>: the number of join rows of each server.\<close>

definition annotate_num_members :: "queryset \<Rightarrow> queryset" where
  "annotate_num_members qs =
     qs\<lparr>qs_rows := map (\<lambda>r. r\<lparr>row_num_members := Some (int (length (row_joined r)))\<rparr>)
                      (qs_rows qs)\<rparr>"

text \<open>
  \<open>queryset[:n]\<close>: a negative bound is refused with \<open>ValueError\<close>; any other bound
  becomes the limit of the query, and the query set counts as sliced from then on.
\<close>

definition slice_to :: "int \<Rightarrow> queryset \<Rightarrow> error + queryset" where
  "slice_to n qs =
     (if n < 0 then Inl ValueError
      else Inr \<lparr>qs_rows = take (nat n) (qs_rows qs), qs_sliced = True\<rparr>)"

definition exists_qs :: "queryset \<Rightarrow> bool" where
  "exists_qs qs = (qs_rows qs \<noteq> [])"

section \<open>Serialization (server/serializer.py)\<close>

datatype json =
    JNull
  | JInt int
  | JStr string
  | JList "json list"
  | JObj "(string \<times> json) list"

text \<open>
  A serialized object is a dictionary in field order, kept as an association list.
  \<open>pop\<close> is \<open>data.pop(key, None)\<close>.
\<close>

definition pop :: "string \<Rightarrow> (string \<times> json) list \<Rightarrow> (string \<times> json) list" where
  "pop k data = filter (\<lambda>(k', v). k' \<noteq> k) data"

definition json_of_key :: "int option \<Rightarrow> json" where
  "json_of_key k = (case k of None \<Rightarrow> JNull | Some i \<Rightarrow> JInt i)"

definition json_of_text :: "string option \<Rightarrow> json" where
  "json_of_text t = (case t of None \<Rightarrow> JNull | Some s \<Rightarrow> JStr s)"

text \<open>
  A file field is serialized as the URL of its file, or null when it has no file.  The URL
  comes from the storage, which is a parameter \<open>url\<close> here.
\<close>

definition json_of_file :: "(string \<Rightarrow> string) \<Rightarrow> string option \<Rightarrow> json" where
  "json_of_file url f = (if truthy f then JStr (url (the f)) else JNull)"

text \<open>\<open>ChannelSerializer\<close>, all fields.\<close>

definition ChannelSerializer_to_representation :: "channel \<Rightarrow> (string \<times> json) list" where
  "ChannelSerializer_to_representation c =
     [(''id'', json_of_key (channel_id c)),
      (''name'', JStr (channel_name c)),
      (''topic'', JStr (channel_topic c)),
      (''owner'', JInt (channel_owner c)),
      (''server'', JInt (channel_server c))]"

definition get_num_members :: "row \<Rightarrow> json" where
  "get_num_members r = (case row_num_members r of Some n \<Rightarrow> JInt n | None \<Rightarrow> JNull)"

text \<open>
  The fields of \<open>ServerSerializer\<close> before \<open>to_representation\<close> edits them:
  every field of the model but \<open>member\<close>, the method field \<open>num_members\<close> and the
  channels of the server (the related name \<open>channel_server\<close>).
\<close>

definition super_to_representation ::
  "(string \<Rightarrow> string) \<Rightarrow> database \<Rightarrow> row \<Rightarrow> (string \<times> json) list" where
  "super_to_representation url d r =
     (let s = row_obj r in
      [(''id'', json_of_key (server_id s)),
       (''num_members'', get_num_members r),
       (''channel_server'',
          JList (map (\<lambda>c. JObj (ChannelSerializer_to_representation c))
                   (filter (\<lambda>c. server_id s = Some (channel_server c)) (channels d)))),
       (''name'', JStr (server_name s)),
       (''description'', json_of_text (server_description s)),
       (''banner'', json_of_file url (server_banner s)),
       (''icon'', json_of_file url (server_icon s)),
       (''owner'', JInt (server_owner s)),
       (''category'', JInt (server_category s))])"

text \<open>
  \<open>ServerSerializer.to_representation\<close>.  The context is a dictionary of flags;
  \<open>self.context.get("num_members")\<close> is falsy when the key is missing or false.
\<close>

definition ServerSerializer_to_representation ::
  "(string \<Rightarrow> string) \<Rightarrow> database \<Rightarrow> (string \<Rightarrow> bool option) \<Rightarrow> row \<Rightarrow> (string \<times> json) list" where
  "ServerSerializer_to_representation url d ctx r =
     (let data = super_to_representation url d r;
          num_members = ctx ''num_members''
      in if num_members \<noteq> Some True then pop ''num_members'' data else data)"

section \<open>The listing view (server/views.py)\<close>

text \<open>
  A request: the query parameters as a dictionary (\<open>query_params.get\<close> is the lookup)
  and the authenticated user's key, \<open>None\<close> for an anonymous caller.
\<close>

record request =
  query_params :: "string \<Rightarrow> string option"
  user :: "int option"

text \<open>
  \<open>ServerListViewSet.list\<close> refines \<open>self.queryset\<close> stage by stage.  Each stage
  below is one \<open>if\<close> block of the method, in the method's order; an exception ends the
  method.
\<close>

definition stage_category :: "request \<Rightarrow> database \<Rightarrow> queryset \<Rightarrow> error + queryset" where
  "stage_category req d qs =
     (let category = query_params req ''category''
      in if truthy category then filter_category_name d (the category) qs else Inr qs)"

definition stage_by_user :: "request \<Rightarrow> queryset \<Rightarrow> error + queryset" where
  "stage_by_user req qs =
     (let by_user = (query_params req ''by_user'' = Some ''true'')
      in if by_user then
           (case user req of
              Some user_id \<Rightarrow> filter_member user_id qs
            | None \<Rightarrow> Inl AuthenticationFailed)
         else Inr qs)"

definition stage_with_num_members :: "request \<Rightarrow> queryset \<Rightarrow> queryset" where
  "stage_with_num_members req qs =
     (let with_num_members = (query_params req ''with_num_members'' = Some ''true'')
      in if with_num_members then annotate_num_members qs else qs)"

definition stage_qty :: "request \<Rightarrow> queryset \<Rightarrow> error + queryset" where
  "stage_qty req qs =
     (let qty = query_params req ''qty''
      in if truthy qty then
           (case py_int (the qty) of
              None \<Rightarrow> Inl ValueError
            | Some n \<Rightarrow> slice_to n qs)
         else Inr qs)"

definition does_not_exist :: "string \<Rightarrow> string" where
  "does_not_exist by_serverid = ''Server with ID '' @ by_serverid @ '' does not exist''"

text \<open>The \<open>try\<close> block catches \<open>ValueError\<close> only.\<close>

definition stage_by_serverid :: "request \<Rightarrow> queryset \<Rightarrow> error + queryset" where
  "stage_by_serverid req qs =
     (let by_serverid = query_params req ''by_serverid''
      in if truthy by_serverid then
           (case filter_id (the by_serverid) qs of
              Inl ValueError \<Rightarrow> Inl (ValidationError (does_not_exist (the by_serverid)))
            | Inl e \<Rightarrow> Inl e
            | Inr qs' \<Rightarrow>
                if \<not> exists_qs qs' then Inl (ValidationError (does_not_exist (the by_serverid)))
                else Inr qs')
         else Inr qs)"

text \<open>The query set as it stands before the \<open>qty\<close> block.\<close>

definition narrowed :: "request \<Rightarrow> database \<Rightarrow> error + queryset" where
  "narrowed req d =
     (case stage_category req d (objects_all d) of
        Inl e \<Rightarrow> Inl e
      | Inr qs1 \<Rightarrow>
          (case stage_by_user req qs1 of
             Inl e \<Rightarrow> Inl e
           | Inr qs2 \<Rightarrow> Inr (stage_with_num_members req qs2)))"

text \<open>The query set that is handed to the serializer.\<close>

definition final_queryset :: "request \<Rightarrow> database \<Rightarrow> error + queryset" where
  "final_queryset req d =
     (case narrowed req d of
        Inl e \<Rightarrow> Inl e
      | Inr qs3 \<Rightarrow>
          (case stage_qty req qs3 of
             Inl e \<Rightarrow> Inl e
           | Inr qs4 \<Rightarrow> stage_by_serverid req qs4))"

definition ServerListViewSet_list ::
  "(string \<Rightarrow> string) \<Rightarrow> request \<Rightarrow> database \<Rightarrow> error + (string \<times> json) list list" where
  "ServerListViewSet_list url req d =
     (let with_num_members = (query_params req ''with_num_members'' = Some ''true'')
      in case final_queryset req d of
           Inl e \<Rightarrow> Inl e
         | Inr qs \<Rightarrow>
             Inr (map (ServerSerializer_to_representation url d
                         [''num_members'' \<mapsto> with_num_members])
                    (qs_rows qs)))"

section \<open>Saving model instances (server/models.py)\<close>

text \<open>
  The model classes and Python's \<open>super(T, obj)\<close>: it raises \<open>TypeError\<close> unless
  \<open>obj\<close> is an instance of \<open>T\<close>.  The three models derive from \<open>Model\<close> only.
\<close>

datatype model_class = Model | Category | Server | Channel

definition issubclass :: "model_class \<Rightarrow> model_class \<Rightarrow> bool" where
  "issubclass c t = (c = t \<or> t = Model)"

definition py_super :: "model_class \<Rightarrow> model_class \<Rightarrow> error + model_class" where
  "py_super t cls_of_obj = (if issubclass cls_of_obj t then Inr Model else Inl TypeError)"

text \<open>\<open>if self.id:\<close> is false for an unset key and for 0.\<close>

definition key_truthy :: "int option \<Rightarrow> bool" where
  "key_truthy k = (k \<noteq> None \<and> k \<noteq> Some 0)"

text \<open>
  \<open>FieldFile.delete(save=False)\<close>: nothing when the field has no file, else the
  storage deletes the file of that name.
\<close>

definition FieldFile_delete :: "string option \<Rightarrow> string list \<Rightarrow> string list" where
  "FieldFile_delete f files = (if truthy f then removeAll (the f) files else files)"

text \<open>A fresh primary key for an inserted row.\<close>

definition next_pk :: "int option list \<Rightarrow> int" where
  "next_pk ks = fold max (map (\<lambda>k. case k of Some i \<Rightarrow> i | None \<Rightarrow> 0) ks) 0 + 1"

text \<open>
  \<open>Model.save\<close>: the row of the instance's key is replaced; an instance whose key has no
  row is inserted, under a fresh key when it has none.  The instance is returned with
  its key.
\<close>

definition Model_save_category :: "category \<Rightarrow> database \<Rightarrow> category \<times> database" where
  "Model_save_category c d =
     (case category_id c of
        Some k \<Rightarrow>
          if list_ex (\<lambda>r. category_id r = Some k) (categories d)
          then (c, d\<lparr>categories := map (\<lambda>r. if category_id r = Some k then c else r) (categories d)\<rparr>)
          else (c, d\<lparr>categories := categories d @ [c]\<rparr>)
      | None \<Rightarrow>
          (let c' = c\<lparr>category_id := Some (next_pk (map category_id (categories d)))\<rparr>
           in (c', d\<lparr>categories := categories d @ [c']\<rparr>)))"

definition Model_save_server :: "server \<Rightarrow> database \<Rightarrow> server \<times> database" where
  "Model_save_server s d =
     (case server_id s of
        Some k \<Rightarrow>
          if list_ex (\<lambda>r. server_id r = Some k) (servers d)
          then (s, d\<lparr>servers := map (\<lambda>r. if server_id r = Some k then s else r) (servers d)\<rparr>)
          else (s, d\<lparr>servers := servers d @ [s]\<rparr>)
      | None \<Rightarrow>
          (let s' = s\<lparr>server_id := Some (next_pk (map server_id (servers d)))\<rparr>
           in (s', d\<lparr>servers := servers d @ [s']\<rparr>)))"


text \<open>
  \<open>Category.save\<close>: the old icon file is deleted when the icon changed, then
  \<open>super(Category, self).save()\<close>.  A save returns the outcome (the saved instance or the
  exception) and the world as the call left it.
\<close>

definition Category_save :: "category \<Rightarrow> world \<Rightarrow> (error + category) \<times> world" where
  "Category_save self w =
     (case (if key_truthy (category_id self) then
              (case find (\<lambda>r. category_id r = category_id self) (categories (db w)) of
                 None \<Rightarrow> Inl Http404
               | Some existing \<Rightarrow>
                   Inr (if category_icon existing \<noteq> category_icon self
                        then w\<lparr>media := FieldFile_delete (category_icon existing) (media w)\<rparr>
                        else w))
            else Inr w) of
        Inl e \<Rightarrow> (Inl e, w)
      | Inr w1 \<Rightarrow>
          (case py_super Category Category of
             Inl e \<Rightarrow> (Inl e, w1)
           | Inr _ \<Rightarrow>
               (let (c, d') = Model_save_category self (db w1)
                in (Inr c, w1\<lparr>db := d'\<rparr>))))"

text \<open>
  \<open>Server.save\<close>: the same for the icon and the banner, then
  \<open>super(Category, self).save()\<close>, where \<open>self\<close> is a \<open>Server\<close>.
\<close>

definition Server_save :: "server \<Rightarrow> world \<Rightarrow> (error + server) \<times> world" where
  "Server_save self w =
     (case (if key_truthy (server_id self) then
              (case find (\<lambda>r. server_id r = server_id self) (servers (db w)) of
                 None \<Rightarrow> Inl Http404
               | Some existing \<Rightarrow>
                   (let w0 = (if server_icon existing \<noteq> server_icon self
                              then w\<lparr>media := FieldFile_delete (server_icon existing) (media w)\<rparr>
                              else w)
                    in Inr (if server_banner existing \<noteq> server_banner self
                            then w0\<lparr>media := FieldFile_delete (server_banner existing) (media w0)\<rparr>
                            else w0)))
            else Inr w) of
        Inl e \<Rightarrow> (Inl e, w)
      | Inr w1 \<Rightarrow>
          (case py_super Category Server of
             Inl e \<Rightarrow> (Inl e, w1)
           | Inr _ \<Rightarrow>
               (let (s, d') = Model_save_server self (db w1)
                in (Inr s, w1\<lparr>db := d'\<rparr>))))"


section \<open>Example data\<close>

text \<open>
  A small database: servers A and B in the category "gaming" and C in "music"; users 1
  and 2 are members of A, user 1 is a member of C, and B has no member.
\<close>

definition example_db :: database where
  "example_db =
     \<lparr>categories =
        [\<lparr>category_id = Some 1, category_name = ''gaming'', category_description = None,
          category_icon = None\<rparr>,
         \<lparr>category_id = Some 2, category_name = ''music'', category_description = None,
          category_icon = None\<rparr>],
      servers =
        [\<lparr>server_id = Some 1, server_name = ''A'', server_owner = 1, server_category = 1,
          server_description = None, server_banner = None, server_icon = Some ''a.png''\<rparr>,
         \<lparr>server_id = Some 2, server_name = ''B'', server_owner = 1, server_category = 1,
          server_description = None, server_banner = None, server_icon = None\<rparr>,
         \<lparr>server_id = Some 3, server_name = ''C'', server_owner = 2, server_category = 2,
          server_description = None, server_banner = None, server_icon = None\<rparr>],
      channels =
        [\<lparr>channel_id = Some 1, channel_name = ''general'', channel_owner = 1,
          channel_topic = ''talk'', channel_server = 1\<rparr>],
      server_member = [(1, 1), (1, 2), (3, 1)]\<rparr>"

text \<open>A request with the given query parameters (each key once) and caller.\<close>

definition request_of :: "(string \<times> string) list \<Rightarrow> int option \<Rightarrow> request" where
  "request_of ps u = \<lparr>query_params = map_of ps, user = u\<rparr>"

text \<open>The keys of the servers of an outcome of the view's query, in order.\<close>

definition keys_of :: "error + queryset \<Rightarrow> error + int option list" where
  "keys_of res = map_sum (\<lambda>e. e) (\<lambda>qs. map (\<lambda>r. server_id (row_obj r)) (qs_rows qs)) res"

section \<open>Properties of the listing view\<close>

text \<open>
  C10: a \<open>category\<close>, \<open>qty\<close> or \<open>by_serverid\<close> parameter with the empty string as its
  value is treated as absent: the view gives the same outcome (result or error) as for the
  request without that parameter.
\<close>

theorem empty_parameter_is_absent:
  "ServerListViewSet_list url (req\<lparr>query_params := (query_params req)(''category'' \<mapsto> [])\<rparr>) d
     = ServerListViewSet_list url (req\<lparr>query_params := (query_params req)(''category'' := None)\<rparr>) d
   \<and> ServerListViewSet_list url (req\<lparr>query_params := (query_params req)(''qty'' \<mapsto> [])\<rparr>) d
     = ServerListViewSet_list url (req\<lparr>query_params := (query_params req)(''qty'' := None)\<rparr>) d
   \<and> ServerListViewSet_list url (req\<lparr>query_params := (query_params req)(''by_serverid'' \<mapsto> [])\<rparr>) d
     = ServerListViewSet_list url (req\<lparr>query_params := (query_params req)(''by_serverid'' := None)\<rparr>) d"
  by (simp add: ServerListViewSet_list_def final_queryset_def narrowed_def stage_category_def
      stage_by_user_def stage_with_num_members_def stage_qty_def stage_by_serverid_def
      cong: sum.case_cong)

subsection \<open>The stages of the view\<close>




lemma narrowed_not_sliced: "narrowed req d = Inr qs \<Longrightarrow> \<not> qs_sliced qs"
  by (auto simp add: narrowed_def stage_category_def filter_category_name_def objects_all_def
      stage_by_user_def filter_member_def stage_with_num_members_def annotate_num_members_def
      Let_def split: if_splits option.splits)





lemma keys_of_Inr: "keys_of res = Inr ks \<Longrightarrow> \<exists>qs. res = Inr qs"
  by (cases res) (simp_all add: keys_of_def)

text \<open>
  C1: \<open>qty\<close> truncates before \<open>by_serverid\<close> filters.  The filter is then applied to a
  sliced query set, which the ORM refuses with \<open>TypeError\<close>; the \<open>try\<close> block catches
  \<open>ValueError\<close> only.  So whenever both parameters are given (and \<open>qty\<close> is a
  non-negative integer), the view ends with \<open>TypeError\<close>, whether the server is inside
  the first \<open>qty\<close> servers or not, and never with the validation error.
\<close>

theorem qty_then_by_serverid_raises_TypeError:
  assumes "truthy (query_params req ''qty'')"
    and "py_int (the (query_params req ''qty'')) = Some n" and "0 \<le> n"
    and "truthy (query_params req ''by_serverid'')"
    and "narrowed req d = Inr qs"
  shows "ServerListViewSet_list url req d = Inl TypeError"
  using assms
  by (simp add: ServerListViewSet_list_def final_queryset_def stage_qty_def slice_to_def
      stage_by_serverid_def filter_id_def Let_def)

theorem qty_then_by_serverid_raises_TypeError_witness:
  "truthy (query_params (request_of [(''qty'', ''1''), (''by_serverid'', ''2'')] None) ''qty'')
   \<and> py_int (the (query_params (request_of [(''qty'', ''1''), (''by_serverid'', ''2'')] None) ''qty''))
       = Some 1
   \<and> truthy (query_params (request_of [(''qty'', ''1''), (''by_serverid'', ''2'')] None) ''by_serverid'')
   \<and> keys_of (narrowed (request_of [(''qty'', ''1''), (''by_serverid'', ''2'')] None) example_db)
       = Inr [Some 1, Some 2, Some 3]
   \<and> ServerListViewSet_list (\<lambda>name. name)
        (request_of [(''qty'', ''1''), (''by_serverid'', ''2'')] None) example_db
       = Inl TypeError"
proof -
  let ?r = "request_of [(''qty'', ''1''), (''by_serverid'', ''2'')] None"
  have a: "truthy (query_params ?r ''qty'')" by code_simp
  have b: "py_int (the (query_params ?r ''qty'')) = Some 1" by code_simp
  have c: "truthy (query_params ?r ''by_serverid'')" by code_simp
  have k: "keys_of (narrowed ?r example_db) = Inr [Some 1, Some 2, Some 3]" by code_simp
  from keys_of_Inr[OF k] obtain qs where e: "narrowed ?r example_db = Inr qs" by blast
  have "ServerListViewSet_list (\<lambda>name. name) ?r example_db = Inl TypeError"
    using qty_then_by_serverid_raises_TypeError[OF a b _ c e] by simp
  with a b c k show ?thesis by simp
qed

text \<open>
  C2: a \<open>qty\<close> that is not an integer string.  \<open>int(qty)\<close> raises \<open>ValueError\<close>
  outside any \<open>try\<close> block, so the view ends with that exception instead of a result.
\<close>

theorem malformed_qty_raises_ValueError:
  assumes "truthy (query_params req ''qty'')"
    and "py_int (the (query_params req ''qty'')) = None"
    and "narrowed req d = Inr qs"
  shows "ServerListViewSet_list url req d = Inl ValueError"
  using assms
  by (simp add: ServerListViewSet_list_def final_queryset_def stage_qty_def Let_def)

theorem malformed_qty_raises_ValueError_witness:
  "truthy (query_params (request_of [(''qty'', ''abc'')] None) ''qty'')
   \<and> py_int (the (query_params (request_of [(''qty'', ''abc'')] None) ''qty'')) = None
   \<and> keys_of (narrowed (request_of [(''qty'', ''abc'')] None) example_db)
       = Inr [Some 1, Some 2, Some 3]
   \<and> ServerListViewSet_list (\<lambda>name. name) (request_of [(''qty'', ''abc'')] None) example_db
       = Inl ValueError"
proof -
  let ?r = "request_of [(''qty'', ''abc'')] None"
  have a: "truthy (query_params ?r ''qty'')" by code_simp
  have b: "py_int (the (query_params ?r ''qty'')) = None" by code_simp
  have k: "keys_of (narrowed ?r example_db) = Inr [Some 1, Some 2, Some 3]" by code_simp
  from keys_of_Inr[OF k] obtain qs where e: "narrowed ?r example_db = Inr qs" by blast
  have "ServerListViewSet_list (\<lambda>name. name) ?r example_db = Inl ValueError"
    using malformed_qty_raises_ValueError[OF a b e] by simp
  with a b k show ?thesis by simp
qed











text \<open>
  The key \<open>num_members\<close> is in every serialized server when \<open>with_num_members\<close> is the
  string "true", and in none otherwise.
\<close>

lemma num_members_key_present_iff:
  assumes "ServerListViewSet_list url req d = Inr res" and "obj \<in> set res"
  shows "(''num_members'' \<in> fst ` set obj)
           = (query_params req ''with_num_members'' = Some ''true'')"
proof (cases "query_params req ''with_num_members'' = Some ''true''")
  case True
  with assms show ?thesis
    by (auto simp add: ServerListViewSet_list_def ServerSerializer_to_representation_def
        super_to_representation_def pop_def Let_def split: sum.splits)
next
  case False
  with assms show ?thesis
    by (auto simp add: ServerListViewSet_list_def ServerSerializer_to_representation_def
        super_to_representation_def pop_def Let_def split: sum.splits)
qed

text \<open>Without the \<open>by_user\<close> filter the annotation counts all membership rows of the server.\<close>

lemma num_members_without_by_user:
  assumes "query_params req ''by_user'' \<noteq> Some ''true''"
    and "query_params req ''with_num_members'' = Some ''true''"
  shows "\<exists>qs. narrowed req d = Inr qs
    \<and> (\<forall>r \<in> set (qs_rows qs).
          row_num_members r = Some (int (length (members_of d (row_obj r)))))"
  using assms
  by (auto simp add: narrowed_def stage_category_def filter_category_name_def objects_all_def
      stage_by_user_def stage_with_num_members_def annotate_num_members_def Let_def)

text \<open>
  C6: the member count.  When \<open>by_user=true\<close> is combined with
  \<open>with_num_members=true\<close>, the count is taken over the join that the membership filter
  has already restricted to the caller: every returned server is annotated with the
  number of membership rows of the caller \<open>u\<close> (one, as the join table holds a pair
  once), not with the number of its members.
\<close>

theorem num_members_counts_only_the_caller:
  assumes "query_params req ''by_user'' = Some ''true''" and "user req = Some u"
    and "query_params req ''with_num_members'' = Some ''true''"
  shows "\<exists>qs. narrowed req d = Inr qs
    \<and> (\<forall>r \<in> set (qs_rows qs).
          row_num_members r
            = Some (int (length (filter (\<lambda>m. m = u) (members_of d (row_obj r))))))"
  using assms
  by (auto simp add: narrowed_def stage_category_def filter_category_name_def objects_all_def
      stage_by_user_def filter_member_def stage_with_num_members_def annotate_num_members_def
      Let_def)

theorem num_members_counts_only_the_caller_witness:
  "query_params (request_of [(''by_user'', ''true''), (''with_num_members'', ''true'')] (Some 1))
      ''by_user'' = Some ''true''
   \<and> query_params (request_of [(''by_user'', ''true''), (''with_num_members'', ''true'')] (Some 1))
      ''with_num_members'' = Some ''true''
   \<and> map_sum (\<lambda>e. e) (map (\<lambda>obj. (map_of obj ''id'', map_of obj ''num_members'')))
        (ServerListViewSet_list (\<lambda>name. name)
           (request_of [(''by_user'', ''true''), (''with_num_members'', ''true'')] (Some 1))
           example_db)
       = Inr [(Some (JInt 1), Some (JInt 1)), (Some (JInt 3), Some (JInt 1))]
   \<and> members_of example_db (servers example_db ! 0) = [1, 2]"
proof -
  let ?r = "request_of [(''by_user'', ''true''), (''with_num_members'', ''true'')] (Some 1)"
  have a: "query_params ?r ''by_user'' = Some ''true''" by code_simp
  have u: "user ?r = Some 1" by code_simp
  have w: "query_params ?r ''with_num_members'' = Some ''true''" by code_simp
  have o: "map_sum (\<lambda>e. e) (map (\<lambda>obj. (map_of obj ''id'', map_of obj ''num_members'')))
        (ServerListViewSet_list (\<lambda>name. name) ?r example_db)
       = Inr [(Some (JInt 1), Some (JInt 1)), (Some (JInt 3), Some (JInt 1))]" by code_simp
  have m: "members_of example_db (servers example_db ! 0) = [1, 2]" by code_simp
  from num_members_counts_only_the_caller[OF a u w, of example_db]
  have "\<exists>qs. narrowed ?r example_db = Inr qs" by blast
  with a w o m show ?thesis by simp
qed

section \<open>Properties of the model classes\<close>

text \<open>
  C3: updating a server.  \<open>Server.save\<close> ends with \<open>super(Category, self).save()\<close>,
  and a \<open>Server\<close> is not a \<open>Category\<close>: the call raises \<open>TypeError\<close> (or the lookup
  before it raises \<open>Http404\<close>), so no call of \<open>Server.save\<close> saves anything and the
  database is left as it was, while the old files have already been deleted.
\<close>

theorem Server_save_never_persists:
  "(fst (Server_save self w) = Inl Http404 \<or> fst (Server_save self w) = Inl TypeError)
   \<and> db (snd (Server_save self w)) = db w"
  by (simp add: Server_save_def py_super_def issubclass_def Let_def split: option.splits)

theorem Server_save_never_persists_witness:
  "Server_save ((servers example_db ! 0)\<lparr>server_icon := Some ''b.png''\<rparr>)
     \<lparr>db = example_db, media = [''a.png'']\<rparr>
   = (Inl TypeError, \<lparr>db = example_db, media = []\<rparr>)"
proof -
  let ?s = "(servers example_db ! 0)\<lparr>server_icon := Some ''b.png''\<rparr>"
  let ?w = "\<lparr>db = example_db, media = [''a.png'']\<rparr>"
  have f: "fst (Server_save ?s ?w) \<noteq> Inl Http404" by code_simp
  have m: "media (snd (Server_save ?s ?w)) = []" by code_simp
  from Server_save_never_persists[of ?s ?w] f
  have "fst (Server_save ?s ?w) = Inl TypeError" and "db (snd (Server_save ?s ?w)) = example_db"
    by simp_all
  with m show ?thesis by (cases "Server_save ?s ?w") auto
qed

text \<open>The sibling \<open>Category.save\<close> names its own class and does save.\<close>

lemma Category_save_persists:
  "Category_save ((categories example_db ! 0)\<lparr>category_icon := Some ''new.png''\<rparr>)
     \<lparr>db = example_db\<lparr>categories :=
             [(categories example_db ! 0)\<lparr>category_icon := Some ''old.png''\<rparr>]\<rparr>,
      media = [''old.png'']\<rparr>
   = (Inr ((categories example_db ! 0)\<lparr>category_icon := Some ''new.png''\<rparr>),
      \<lparr>db = example_db\<lparr>categories :=
             [(categories example_db ! 0)\<lparr>category_icon := Some ''new.png''\<rparr>]\<rparr>,
       media = []\<rparr>)"
  by code_simp

subsection \<open>Lower-casing\<close>




subsection \<open>Rows and keys\<close>












section \<open>The boolean flags of the listing view\<close>

text \<open>
  The flags are compared with the string "true": any other value of \<open>with_num_members\<close>
  or \<open>by_user\<close> gives the outcome of the request without the parameter, and raises
  nothing of its own.
\<close>

lemma flag_other_than_true_is_absent:
  assumes "v \<noteq> ''true''"
  shows "ServerListViewSet_list url
           (req\<lparr>query_params := (query_params req)(''with_num_members'' \<mapsto> v)\<rparr>) d
         = ServerListViewSet_list url
           (req\<lparr>query_params := (query_params req)(''with_num_members'' := None)\<rparr>) d"
    and "ServerListViewSet_list url
           (req\<lparr>query_params := (query_params req)(''by_user'' \<mapsto> v)\<rparr>) d
         = ServerListViewSet_list url
           (req\<lparr>query_params := (query_params req)(''by_user'' := None)\<rparr>) d"
  using assms
  by (simp_all add: ServerListViewSet_list_def final_queryset_def narrowed_def stage_category_def
      stage_by_user_def stage_with_num_members_def stage_qty_def stage_by_serverid_def
      cong: sum.case_cong option.case_cong if_cong)

end
